theory Spec2Isabelle
  imports Complex_Main
begin

section \<open>The AI classification service and its store\<close>

text \<open>
  A shallow embedding of \<^verbatim>\<open>ai-service/main.py\<close>, \<^verbatim>\<open>ai-service/db_utils.py\<close> and
  \<^verbatim>\<open>ai-service/database.py\<close>.

  Conventions of the model.
  \<^item> A Python \<^verbatim>\<open>str\<close> is a \<open>string\<close>; the text is taken as already encoded, so
    \<^verbatim>\<open>content.encode('utf-8')\<close> is the identity and only the case mapping of ASCII
    letters is modelled.
  \<^item> A Python \<^verbatim>\<open>float\<close> is a \<open>real\<close>: the constants of the source are carried
    unchanged and the one computation on them (the mean of the cached tag
    confidences) is done without rounding.
  \<^item> A raised exception is the left summand of \<open>py_error + 'a\<close>. A function that
    touches the database or a backend takes the \<open>world\<close> and returns the new one
    beside its result, so that what was committed before an exception stays
    committed.
  \<^item> What the repository does not contain is a field of the environment \<open>env\<close>:
    the configured service names, the three remote APIs, \<^verbatim>\<open>json.loads\<close>,
    \<^verbatim>\<open>hashlib.sha256\<close>, the clock, and the database failing.
\<close>

subsection \<open>Exceptions\<close>

datatype py_error =
    HTTPException nat string
  | ValueError string
  | ValidationError "string list"
  | JSONDecodeError
  | DataError string
  | OperationalError string

subsection \<open>Strings\<close>

definition lower_char :: "char \<Rightarrow> char" where
  "lower_char c =
     (case map_of (zip ''ABCDEFGHIJKLMNOPQRSTUVWXYZ'' ''abcdefghijklmnopqrstuvwxyz'') c of
        Some l \<Rightarrow> l
      | None \<Rightarrow> c)"

definition lower :: "string \<Rightarrow> string" where
  "lower s = map lower_char s"

text \<open>\<^verbatim>\<open>startswith\<close>, and the substring test \<^verbatim>\<open>keyword in content_lower\<close>.\<close>

fun startswith :: "string \<Rightarrow> string \<Rightarrow> bool" where
  "startswith s [] = True"
| "startswith [] (k # ks) = False"
| "startswith (c # s) (k # ks) = (c = k \<and> startswith s ks)"

fun contains :: "string \<Rightarrow> string \<Rightarrow> bool" where
  "contains [] k = (k = [])"
| "contains (c # s) k = (startswith (c # s) k \<or> contains s k)"

text \<open>
  \<^verbatim>\<open>str.split()\<close> with no argument: the words between runs of whitespace, none of
  them empty.
\<close>

definition isspace :: "char \<Rightarrow> bool" where
  "isspace c = (c \<in> set [CHR '' '', CHR 0x09, CHR 0x0A, CHR 0x0B, CHR 0x0C, CHR 0x0D,
                          CHR 0x1C, CHR 0x1D, CHR 0x1E, CHR 0x1F])"

fun split_acc :: "string \<Rightarrow> string \<Rightarrow> string list" where
  "split_acc [] cur = (if cur = [] then [] else [rev cur])"
| "split_acc (c # s) cur =
     (if isspace c then (if cur = [] then split_acc s [] else rev cur # split_acc s [])
      else split_acc s (c # cur))"

definition str_split :: "string \<Rightarrow> string list" where
  "str_split s = split_acc s []"

subsection \<open>The P.A.R.A classification model\<close>

record rules =
  r_keywords :: "string list"
  r_ai_patterns :: "string list"
  r_priority_keywords :: "string list"
  r_complexity_threshold :: real

definition PARA_CLASSIFICATION_MODEL :: "(string \<times> rules) list" where
  "PARA_CLASSIFICATION_MODEL =
   [(''01-Projects'',
      \<lparr>r_keywords = [''project'', ''development'', ''build'', ''create'', ''task'', ''deadline'',
                   ''work'', ''urgent'', ''launch'', ''release''],
       r_ai_patterns = [''timeline'', ''milestone'', ''deliverable'', ''completion'', ''deadline'',
                      ''launch''],
       r_priority_keywords = [''urgent'', ''important'', ''deadline'', ''critical'', ''launch'',
                            ''release''],
       r_complexity_threshold = 0.7\<rparr>),
    (''02-Areas'',
      \<lparr>r_keywords = [''management'', ''area'', ''business'', ''routine'', ''daily'', ''health'',
                   ''finance'', ''manage'', ''process''],
       r_ai_patterns = [''ongoing'', ''continuous'', ''regular'', ''maintenance'', ''process'',
                      ''management''],
       r_priority_keywords = [''daily'', ''regular'', ''management'', ''routine'', ''process''],
       r_complexity_threshold = 0.5\<rparr>),
    (''03-Resources'',
      \<lparr>r_keywords = [''material'', ''reference'', ''learning'', ''study'', ''information'',
                   ''trend'', ''resource'', ''guide'', ''tutorial''],
       r_ai_patterns = [''educational'', ''informational'', ''reference'', ''learning'', ''study'',
                      ''guide''],
       r_priority_keywords = [''important'', ''reference'', ''learning'', ''valuable'', ''useful''],
       r_complexity_threshold = 0.6\<rparr>),
    (''04-Archives'',
      \<lparr>r_keywords = [''completed'', ''archive'', ''organize'', ''done'', ''finished'', ''past'',
                   ''historical''],
       r_ai_patterns = [''completed'', ''finished'', ''archived'', ''historical'', ''past'',
                      ''final''],
       r_priority_keywords = [''completed'', ''archived'', ''historical'', ''final'', ''done''],
       r_complexity_threshold = 0.3\<rparr>)]"

subsection \<open>Requests, responses and parsed replies\<close>

record ClassificationResponse =
  category :: string
  confidence :: real
  priority :: string
  status :: string
  complexity :: string
  estimated_time :: string
  reasoning :: string

text \<open>
  The dictionary that \<^verbatim>\<open>json.loads\<close> returns for a classification reply: each key
  is there with a value of the field's type, or missing.
\<close>

record classification_data =
  d_category :: "string option"
  d_confidence :: "real option"
  d_priority :: "string option"
  d_status :: "string option"
  d_complexity :: "string option"
  d_estimated_time :: "string option"
  d_reasoning :: "string option"

text \<open>\<^verbatim>\<open>fallback_result.dict()\<close>: every key present.\<close>

definition dict_of_response :: "ClassificationResponse \<Rightarrow> classification_data" where
  "dict_of_response r =
     \<lparr>d_category = Some (category r), d_confidence = Some (confidence r),
      d_priority = Some (priority r), d_status = Some (status r),
      d_complexity = Some (complexity r), d_estimated_time = Some (estimated_time r),
      d_reasoning = Some (reasoning r)\<rparr>"

text \<open>
  \<^verbatim>\<open>ClassificationResponse(**classification)\<close>: all seven fields are required;
  the validation error names the missing ones.
\<close>

definition missing_fields :: "classification_data \<Rightarrow> string list" where
  "missing_fields d =
     (if d_category d = None then [''category''] else []) @
     (if d_confidence d = None then [''confidence''] else []) @
     (if d_priority d = None then [''priority''] else []) @
     (if d_status d = None then [''status''] else []) @
     (if d_complexity d = None then [''complexity''] else []) @
     (if d_estimated_time d = None then [''estimated_time''] else []) @
     (if d_reasoning d = None then [''reasoning''] else [])"

definition make_ClassificationResponse ::
  "classification_data \<Rightarrow> py_error + ClassificationResponse" where
  "make_ClassificationResponse d =
     (if missing_fields d \<noteq> [] then Inl (ValidationError (missing_fields d))
      else Inr \<lparr>category = the (d_category d), confidence = the (d_confidence d),
                priority = the (d_priority d), status = the (d_status d),
                complexity = the (d_complexity d),
                estimated_time = the (d_estimated_time d),
                reasoning = the (d_reasoning d)\<rparr>)"

subsection \<open>Finding the JSON object in a reply\<close>

text \<open>
  \<^verbatim>\<open>re.search(r'\{.*\}', response, re.DOTALL)\<close>: the match starts at the first
  opening brace that has a closing brace after it and, the star being greedy and
  the dot matching newlines, ends at the last closing brace of the reply.
\<close>

definition re_search_braces :: "string \<Rightarrow> string option" where
  "re_search_braces response =
     (case dropWhile (\<lambda>c. c \<noteq> CHR ''{'') response of
        [] \<Rightarrow> None
      | b # after \<Rightarrow>
          (case dropWhile (\<lambda>c. c \<noteq> CHR ''}'') (rev after) of
             [] \<Rightarrow> None
           | r \<Rightarrow> Some (b # rev r)))"

definition fallback_classification_data :: classification_data where
  "fallback_classification_data =
     \<lparr>d_category = Some ''02-Areas'', d_confidence = Some 0.5, d_priority = Some ''normal'',
      d_status = Some ''active'', d_complexity = Some ''medium'',
      d_estimated_time = Some ''1 hour'',
      d_reasoning = Some ''Fallback classification due to parsing error''\<rparr>"

text \<open>
  \<^verbatim>\<open>_parse_classification_response\<close>, with \<^verbatim>\<open>json.loads\<close> as the parameter
  \<open>loads\<close>. The inner case is the body of the \<^verbatim>\<open>try\<close>, the outer one the handler.
\<close>

definition parse_classification_response ::
  "(string \<Rightarrow> py_error + classification_data) \<Rightarrow> string \<Rightarrow> py_error + classification_data" where
  "parse_classification_response loads response =
     (case (case re_search_braces response of
              Some json_match \<Rightarrow> loads json_match
            | None \<Rightarrow> Inl (ValueError ''No JSON found in response'')) of
        Inr d \<Rightarrow> Inr d
      | Inl e \<Rightarrow> Inr fallback_classification_data)"

subsection \<open>The rule-based substitute\<close>

definition rule_based :: "string \<Rightarrow> ClassificationResponse" where
  "rule_based c =
     \<lparr>category = c, confidence = 0.6, priority = ''normal'', status = ''active'',
      complexity = ''medium'', estimated_time = ''1 hour'',
      reasoning = ''Rule-based classification fallback''\<rparr>"

definition default_to_areas :: ClassificationResponse where
  "default_to_areas =
     \<lparr>category = ''02-Areas'', confidence = 0.5, priority = ''normal'', status = ''active'',
      complexity = ''medium'', estimated_time = ''1 hour'',
      reasoning = ''Default classification to Areas''\<rparr>"

fun first_category :: "(string \<times> rules) list \<Rightarrow> string \<Rightarrow> string option" where
  "first_category [] content_lower = None"
| "first_category ((c, r) # model) content_lower =
     (if list_ex (\<lambda>keyword. contains content_lower keyword) (r_keywords r) then Some c
      else first_category model content_lower)"

definition fallback_classification :: "string \<Rightarrow> ClassificationResponse" where
  "fallback_classification content =
     (let content_lower = lower content in
      case first_category PARA_CLASSIFICATION_MODEL content_lower of
        Some c \<Rightarrow> rule_based c
      | None \<Rightarrow> default_to_areas)"

subsection \<open>The environment\<close>

datatype task = Classification | Tagging | Analysis

datatype db_op = ReadHistory | SaveClassification | SaveTags | SaveAnalysis | UpdateStatus

record tags_data =
  t_smart_tags :: "string list option"
  t_confidence :: "real option"
  t_semantic_groups :: "(string \<times> string list) list option"
  t_related_topics :: "string list option"

record analysis_data =
  a_entities :: "string list option"
  a_sentiment :: "string option"
  a_complexity_score :: "real option"
  a_key_concepts :: "string list option"
  a_summary :: "string option"
  a_language :: "string option"

text \<open>
  \<open>api t s p n\<close> is the text the remote API \<open>s\<close> returns for the prompt \<open>p\<close> of task
  \<open>t\<close> when \<open>n\<close> backend invocations came before, or \<open>None\<close> when the request or
  the reading of its response raises. \<open>loads_*\<close> is \<^verbatim>\<open>json.loads\<close>, read at the
  type of the task's dictionary. \<open>sha256_hexdigest\<close> is
  \<^verbatim>\<open>hashlib.sha256(b).hexdigest()\<close>. \<open>utcnow n\<close> and \<open>elapsed_ms n\<close> are the clock
  readings when \<open>n\<close> database sessions have been opened. \<open>db_raises op n\<close> is the
  exception the database raises inside the session number \<open>n\<close> opened for \<open>op\<close>
  (a lost connection, a violated constraint), or \<open>None\<close>.
\<close>

record env =
  primary_ai_service :: string
  fallback_ai_service :: string
  api :: "task \<Rightarrow> string \<Rightarrow> string \<Rightarrow> nat \<Rightarrow> string option"
  loads_classification :: "string \<Rightarrow> py_error + classification_data"
  loads_tagging :: "string \<Rightarrow> py_error + tags_data"
  loads_analysis :: "string \<Rightarrow> py_error + analysis_data"
  sha256_hexdigest :: "string \<Rightarrow> string"
  utcnow :: "nat \<Rightarrow> int"
  elapsed_ms :: "nat \<Rightarrow> int"
  db_raises :: "db_op \<Rightarrow> nat \<Rightarrow> py_error option"

subsection \<open>The tables\<close>

text \<open>
  The rows of \<^verbatim>\<open>database.py\<close>. A UUID is a natural number drawn from a counter.
  Only the classification's id is ever read, so the other tables' surrogate ids
  and insertion timestamps are left out.
\<close>

record ContentClassification =
  cc_id :: nat
  cc_content_hash :: string
  cc_content_preview :: string
  cc_category :: string
  cc_confidence :: real
  cc_priority :: string
  cc_status :: string
  cc_complexity :: string
  cc_estimated_time :: string
  cc_reasoning :: string
  cc_ai_service_used :: string
  cc_created_at :: int
  cc_updated_at :: int

record ContentTag =
  ct_classification_id :: nat
  ct_tag :: string
  ct_confidence :: real
  ct_semantic_group :: string

record ContentAnalysis =
  ca_classification_id :: nat
  ca_entities :: "string list"
  ca_sentiment :: string
  ca_complexity_score :: real
  ca_key_concepts :: "string list"
  ca_summary :: string
  ca_language :: string
  ca_ai_service_used :: string

record ProcessingLog =
  pl_content_hash :: string
  pl_processing_type :: string
  pl_status :: string
  pl_processing_time_ms :: int
  pl_ai_service_used :: "string option"
  pl_error_message :: "string option"
  pl_metadata :: "(string \<times> nat) option"

record AIServiceStatus =
  ss_service_name :: string
  ss_status :: string
  ss_response_time_ms :: "int option"
  ss_last_successful_call :: "int option"
  ss_error_count :: int
  ss_success_count :: int
  ss_updated_at :: int

text \<open>
  The world: the five tables the services use, the UUID counter, the number of
  database sessions opened so far, and the backend invocations made so far
  (service name and prompt), oldest first.
\<close>

record world =
  content_classifications :: "ContentClassification list"
  content_tags :: "ContentTag list"
  content_analyses :: "ContentAnalysis list"
  processing_logs :: "ProcessingLog list"
  ai_service_status :: "AIServiceStatus list"
  next_uuid :: nat
  sessions :: nat
  backend_calls :: "(string \<times> string) list"

definition empty_world :: world where
  "empty_world =
     \<lparr>content_classifications = [], content_tags = [], content_analyses = [],
      processing_logs = [], ai_service_status = [], next_uuid = 0, sessions = 0,
      backend_calls = []\<rparr>"

subsection \<open>Sessions\<close>

text \<open>
  \<^verbatim>\<open>with get_db_session() as db: ... db.commit()\<close>. The body is a transaction: it
  either raises, and nothing it did is kept, or it commits all its changes.
\<close>

definition with_session ::
  "env \<Rightarrow> db_op \<Rightarrow> (world \<Rightarrow> py_error + 'a \<times> world) \<Rightarrow> world \<Rightarrow> (py_error + 'a) \<times> world" where
  "with_session e op body w =
     (let db = w\<lparr>sessions := Suc (sessions w)\<rparr> in
      case db_raises e op (sessions w) of
        Some err \<Rightarrow> (Inl err, db)
      | None \<Rightarrow>
          (case body db of
             Inl err \<Rightarrow> (Inl err, db)
           | Inr (x, db') \<Rightarrow> (Inr x, db')))"

text \<open>\<^verbatim>\<open>query(...).filter(...).first()\<close> and the update of the row it returns.\<close>

fun update_first :: "('a \<Rightarrow> bool) \<Rightarrow> ('a \<Rightarrow> 'a) \<Rightarrow> 'a list \<Rightarrow> 'a list" where
  "update_first P f [] = []"
| "update_first P f (x # xs) = (if P x then f x # xs else x # update_first P f xs)"

definition generate_content_hash :: "env \<Rightarrow> string \<Rightarrow> string" where
  "generate_content_hash e content = sha256_hexdigest e content"

definition log_processing ::
  "world \<Rightarrow> string option \<Rightarrow> string \<Rightarrow> string \<Rightarrow> int \<Rightarrow> string option \<Rightarrow> string option \<Rightarrow>
   (string \<times> nat) option \<Rightarrow> world" where
  "log_processing db content_hash processing_type st processing_time_ms ai_service
     error_message metadata =
     db\<lparr>processing_logs := processing_logs db @
        [\<lparr>pl_content_hash = (case content_hash of Some h \<Rightarrow> h | None \<Rightarrow> []),
          pl_processing_type = processing_type, pl_status = st,
          pl_processing_time_ms = processing_time_ms, pl_ai_service_used = ai_service,
          pl_error_message = error_message, pl_metadata = metadata\<rparr>]\<rparr>"

text \<open>\<^verbatim>\<open>d.get(key, default)\<close> on a parsed dictionary.\<close>

definition get_or :: "'a option \<Rightarrow> 'a \<Rightarrow> 'a" where
  "get_or v dflt = (case v of Some x \<Rightarrow> x | None \<Rightarrow> dflt)"

subsection \<open>DatabaseManager\<close>

text \<open>
  \<^verbatim>\<open>save_classification\<close>. The handler of the outer \<^verbatim>\<open>try\<close> logs and raises the
  exception again.
\<close>

definition save_classification ::
  "env \<Rightarrow> string \<Rightarrow> classification_data \<Rightarrow> string \<Rightarrow> int \<Rightarrow> world \<Rightarrow> (py_error + nat) \<times> world" where
  "save_classification e content classification_data ai_service processing_time_ms w =
     (case with_session e SaveClassification
        (\<lambda>db.
           let content_hash = generate_content_hash e content in
           case find (\<lambda>c. cc_content_hash c = content_hash) (content_classifications db) of
             Some existing \<Rightarrow>
               let db1 = db\<lparr>content_classifications :=
                     update_first (\<lambda>c. cc_content_hash c = content_hash)
                       (\<lambda>x. x\<lparr>cc_category := get_or (d_category classification_data) (cc_category x),
                              cc_confidence := get_or (d_confidence classification_data) (cc_confidence x),
                              cc_priority := get_or (d_priority classification_data) (cc_priority x),
                              cc_status := get_or (d_status classification_data) (cc_status x),
                              cc_complexity := get_or (d_complexity classification_data) (cc_complexity x),
                              cc_estimated_time :=
                                get_or (d_estimated_time classification_data) (cc_estimated_time x),
                              cc_reasoning := get_or (d_reasoning classification_data) (cc_reasoning x),
                              cc_ai_service_used := ai_service,
                              cc_updated_at := utcnow e (sessions db)\<rparr>)
                       (content_classifications db)\<rparr>
               in Inr (cc_id existing,
                       log_processing db1 (Some content_hash) ''classification'' ''success''
                         processing_time_ms (Some ai_service) None None)
           | None \<Rightarrow>
               let classification =
                     \<lparr>cc_id = next_uuid db,
                      cc_content_hash = content_hash,
                      cc_content_preview =
                        (if length content > 500 then take 500 content @ ''...'' else content),
                      cc_category = get_or (d_category classification_data) ''02-Areas'',
                      cc_confidence = get_or (d_confidence classification_data) 0.5,
                      cc_priority = get_or (d_priority classification_data) ''normal'',
                      cc_status = get_or (d_status classification_data) ''active'',
                      cc_complexity = get_or (d_complexity classification_data) ''medium'',
                      cc_estimated_time = get_or (d_estimated_time classification_data) ''1 hour'',
                      cc_reasoning = get_or (d_reasoning classification_data) [],
                      cc_ai_service_used = ai_service,
                      cc_created_at = utcnow e (sessions db),
                      cc_updated_at = utcnow e (sessions db)\<rparr>;
                   db1 = db\<lparr>content_classifications := content_classifications db @ [classification],
                            next_uuid := Suc (next_uuid db)\<rparr>
               in Inr (cc_id classification,
                       log_processing db1 (Some content_hash) ''classification'' ''success''
                         processing_time_ms (Some ai_service) None None))
        w of
        (Inl err, w') \<Rightarrow> (Inl err, w')
      | (Inr classification_id, w') \<Rightarrow> (Inr classification_id, w'))"

text \<open>
  \<^verbatim>\<open>save_tags\<close>. Every new tag gets the payload's confidence and the value of
  \<^verbatim>\<open>tags_data.get('semantic_groups', {}).get('general', 'general')\<close>. Under the key
  \<^verbatim>\<open>'general'\<close> a payload holds a list of tags; the column is a \<^verbatim>\<open>String(50)\<close>, a
  list is not a value of it, and the insert of such a row is refused.
\<close>

definition general_group :: "tags_data \<Rightarrow> string list + string" where
  "general_group tags_data =
     (case map_of (get_or (t_semantic_groups tags_data) []) ''general'' of
        Some l \<Rightarrow> Inl l
      | None \<Rightarrow> Inr ''general'')"

definition save_tags ::
  "env \<Rightarrow> nat \<Rightarrow> tags_data \<Rightarrow> string \<Rightarrow> int \<Rightarrow> world \<Rightarrow> (py_error + unit) \<times> world" where
  "save_tags e classification_id tags_data ai_service processing_time_ms w =
     (case with_session e SaveTags
        (\<lambda>db.
           let cleared = filter (\<lambda>t. ct_classification_id t \<noteq> classification_id) (content_tags db);
               smart = get_or (t_smart_tags tags_data) []
           in case general_group tags_data of
                Inl l \<Rightarrow>
                  if smart = [] then
                    Inr ((), log_processing (db\<lparr>content_tags := cleared\<rparr>) None ''tagging''
                               ''success'' processing_time_ms (Some ai_service) None
                               (Some (''tag_count'', 0)))
                  else Inl (DataError ''semantic_group'')
              | Inr g \<Rightarrow>
                  Inr ((), log_processing
                             (db\<lparr>content_tags := cleared @
                                  map (\<lambda>tag. \<lparr>ct_classification_id = classification_id, ct_tag = tag,
                                              ct_confidence = get_or (t_confidence tags_data) 0.5,
                                              ct_semantic_group = g\<rparr>) smart\<rparr>)
                             None ''tagging'' ''success'' processing_time_ms (Some ai_service) None
                             (Some (''tag_count'', length smart))))
        w of
        (Inl err, w') \<Rightarrow> (Inl err, w')
      | (Inr u, w') \<Rightarrow> (Inr u, w'))"

definition save_analysis ::
  "env \<Rightarrow> nat \<Rightarrow> analysis_data \<Rightarrow> string \<Rightarrow> int \<Rightarrow> world \<Rightarrow> (py_error + unit) \<times> world" where
  "save_analysis e classification_id analysis_data ai_service processing_time_ms w =
     (case with_session e SaveAnalysis
        (\<lambda>db.
           let db1 =
             (case find (\<lambda>a. ca_classification_id a = classification_id) (content_analyses db) of
                Some existing \<Rightarrow>
                  db\<lparr>content_analyses :=
                       update_first (\<lambda>a. ca_classification_id a = classification_id)
                         (\<lambda>x. x\<lparr>ca_entities := get_or (a_entities analysis_data) [],
                                ca_sentiment := get_or (a_sentiment analysis_data) ''neutral'',
                                ca_complexity_score := get_or (a_complexity_score analysis_data) 0.5,
                                ca_key_concepts := get_or (a_key_concepts analysis_data) [],
                                ca_summary := get_or (a_summary analysis_data) [],
                                ca_language := get_or (a_language analysis_data) ''English'',
                                ca_ai_service_used := ai_service\<rparr>)
                         (content_analyses db)\<rparr>
              | None \<Rightarrow>
                  db\<lparr>content_analyses := content_analyses db @
                       [\<lparr>ca_classification_id = classification_id,
                         ca_entities = get_or (a_entities analysis_data) [],
                         ca_sentiment = get_or (a_sentiment analysis_data) ''neutral'',
                         ca_complexity_score = get_or (a_complexity_score analysis_data) 0.5,
                         ca_key_concepts = get_or (a_key_concepts analysis_data) [],
                         ca_summary = get_or (a_summary analysis_data) [],
                         ca_language = get_or (a_language analysis_data) ''English'',
                         ca_ai_service_used = ai_service\<rparr>]\<rparr>)
           in Inr ((), log_processing db1 None ''analysis'' ''success'' processing_time_ms
                         (Some ai_service) None
                         (Some (''entities_count'', length (get_or (a_entities analysis_data) [])))))
        w of
        (Inl err, w') \<Rightarrow> (Inl err, w')
      | (Inr u, w') \<Rightarrow> (Inr u, w'))"

text \<open>
  \<^verbatim>\<open>get_classification_history\<close>: the dictionary built from the first row with
  the hash, its tags and its analysis. The handler logs and returns \<^verbatim>\<open>None\<close>.
\<close>

record tag_entry =
  te_tag :: string
  te_confidence :: real
  te_group :: string

record analysis_entry =
  ae_entities :: "string list"
  ae_sentiment :: string
  ae_complexity_score :: real
  ae_key_concepts :: "string list"
  ae_summary :: string
  ae_language :: string

record history =
  h_id :: nat
  h_category :: string
  h_confidence :: real
  h_priority :: string
  h_status :: string
  h_complexity :: string
  h_estimated_time :: string
  h_reasoning :: string
  h_ai_service_used :: string
  h_created_at :: int
  h_updated_at :: int
  h_tags :: "tag_entry list"
  h_analysis :: "analysis_entry option"

definition history_of :: "world \<Rightarrow> ContentClassification \<Rightarrow> history" where
  "history_of db classification =
     \<lparr>h_id = cc_id classification,
      h_category = cc_category classification,
      h_confidence = cc_confidence classification,
      h_priority = cc_priority classification,
      h_status = cc_status classification,
      h_complexity = cc_complexity classification,
      h_estimated_time = cc_estimated_time classification,
      h_reasoning = cc_reasoning classification,
      h_ai_service_used = cc_ai_service_used classification,
      h_created_at = cc_created_at classification,
      h_updated_at = cc_updated_at classification,
      h_tags = map (\<lambda>t. \<lparr>te_tag = ct_tag t, te_confidence = ct_confidence t,
                          te_group = ct_semantic_group t\<rparr>)
                 (filter (\<lambda>t. ct_classification_id t = cc_id classification) (content_tags db)),
      h_analysis =
        (case find (\<lambda>a. ca_classification_id a = cc_id classification) (content_analyses db) of
           Some a \<Rightarrow> Some \<lparr>ae_entities = ca_entities a, ae_sentiment = ca_sentiment a,
                            ae_complexity_score = ca_complexity_score a,
                            ae_key_concepts = ca_key_concepts a, ae_summary = ca_summary a,
                            ae_language = ca_language a\<rparr>
         | None \<Rightarrow> None)\<rparr>"

definition get_classification_history ::
  "env \<Rightarrow> string \<Rightarrow> world \<Rightarrow> (py_error + history option) \<times> world" where
  "get_classification_history e content_hash w =
     (case with_session e ReadHistory
        (\<lambda>db.
           case find (\<lambda>c. cc_content_hash c = content_hash) (content_classifications db) of
             None \<Rightarrow> Inr (None, db)
           | Some classification \<Rightarrow> Inr (Some (history_of db classification), db))
        w of
        (Inl err, w') \<Rightarrow> (Inr None, w')
      | (Inr h, w') \<Rightarrow> (Inr h, w'))"

text \<open>
  \<^verbatim>\<open>update_ai_service_status\<close>. The handler logs and returns: the exception ends
  there.
\<close>

definition update_ai_service_status ::
  "env \<Rightarrow> string \<Rightarrow> string \<Rightarrow> int option \<Rightarrow> int \<Rightarrow> int \<Rightarrow> world \<Rightarrow> (py_error + unit) \<times> world" where
  "update_ai_service_status e service_name st response_time_ms error_count success_count w =
     (case with_session e UpdateStatus
        (\<lambda>db.
           case find (\<lambda>s. ss_service_name s = service_name) (ai_service_status db) of
             Some service_status \<Rightarrow>
               Inr ((), db\<lparr>ai_service_status :=
                           update_first (\<lambda>s. ss_service_name s = service_name)
                             (\<lambda>x. x\<lparr>ss_status := st,
                                    ss_response_time_ms := response_time_ms,
                                    ss_error_count := ss_error_count x + error_count,
                                    ss_success_count := ss_success_count x + success_count,
                                    ss_last_successful_call :=
                                      (if st = ''active'' then Some (utcnow e (sessions db))
                                       else ss_last_successful_call x),
                                    ss_updated_at := utcnow e (sessions db)\<rparr>)
                             (ai_service_status db)\<rparr>)
           | None \<Rightarrow>
               Inr ((), db\<lparr>ai_service_status := ai_service_status db @
                           [\<lparr>ss_service_name = service_name,
                             ss_status = st,
                             ss_response_time_ms = response_time_ms,
                             ss_last_successful_call =
                               (if st = ''active'' then Some (utcnow e (sessions db)) else None),
                             ss_error_count = error_count,
                             ss_success_count = success_count,
                             ss_updated_at = utcnow e (sessions db)\<rparr>]\<rparr>))
        w of
        (Inl err, w') \<Rightarrow> (Inr (), w')
      | (Inr u, w') \<Rightarrow> (Inr u, w'))"

subsection \<open>Calling a backend\<close>

text \<open>
  \<^verbatim>\<open>_call_anthropic\<close>, \<^verbatim>\<open>_call_perplexity\<close> and \<^verbatim>\<open>_call_openai\<close>: whatever the
  request raises becomes an \<^verbatim>\<open>HTTPException\<close> with status 500.
\<close>

definition call_anthropic :: "env \<Rightarrow> task \<Rightarrow> string \<Rightarrow> nat \<Rightarrow> py_error + string" where
  "call_anthropic e t prompt n =
     (case api e t ''anthropic'' prompt n of
        Some text \<Rightarrow> Inr text
      | None \<Rightarrow> Inl (HTTPException 500 ''Anthropic API temporarily unavailable''))"

definition call_perplexity :: "env \<Rightarrow> task \<Rightarrow> string \<Rightarrow> nat \<Rightarrow> py_error + string" where
  "call_perplexity e t prompt n =
     (case api e t ''perplexity'' prompt n of
        Some text \<Rightarrow> Inr text
      | None \<Rightarrow> Inl (HTTPException 500 ''Perplexity API temporarily unavailable''))"

definition call_openai :: "env \<Rightarrow> task \<Rightarrow> string \<Rightarrow> nat \<Rightarrow> py_error + string" where
  "call_openai e t prompt n =
     (case api e t ''openai'' prompt n of
        Some text \<Rightarrow> Inr text
      | None \<Rightarrow>
          Inl (HTTPException 500
                 (if t = Classification then ''OpenAI API temporarily unavailable''
                  else ''AI service temporarily unavailable'')))"

text \<open>
  \<^verbatim>\<open>_call_ai_service\<close>, the same in the three service classes. The invocation is
  appended to \<open>backend_calls\<close>.
\<close>

definition call_ai_service ::
  "env \<Rightarrow> task \<Rightarrow> string \<Rightarrow> string \<Rightarrow> world \<Rightarrow> (py_error + string) \<times> world" where
  "call_ai_service e t prompt service w =
     (let n = length (backend_calls w);
          w' = w\<lparr>backend_calls := backend_calls w @ [(service, prompt)]\<rparr>
      in (if service = ''anthropic'' then call_anthropic e t prompt n
          else if service = ''perplexity'' then call_perplexity e t prompt n
          else if service = ''openai'' then call_openai e t prompt n
          else Inl (ValueError (''Unsupported AI service: '' @ service)),
          w'))"

subsection \<open>AIClassificationService\<close>

text \<open>
  \<^verbatim>\<open>x or "default"\<close> for an optional text: \<^verbatim>\<open>None\<close> and the empty text give the
  default. A dictionary argument (\<^verbatim>\<open>context\<close>, \<^verbatim>\<open>analysis\<close>) is given as the text
  \<^verbatim>\<open>str\<close> prints for it, the empty text standing for an empty dictionary.
\<close>

definition py_or :: "string option \<Rightarrow> string \<Rightarrow> string" where
  "py_or x dflt = (case x of None \<Rightarrow> dflt | Some s \<Rightarrow> if s = [] then dflt else s)"

definition create_classification_prompt :: "string \<Rightarrow> string option \<Rightarrow> string" where
  "create_classification_prompt content context = concat
     [''\<newline>'',
      ''        Analyze the following content and classify it according to the P.A.R.A methodology:\<newline>'',
      ''        \<newline>'',
      ''        Content: '', content, ''\<newline>'',
      ''        \<newline>'',
      ''        Context: '', py_or context ''None'', ''\<newline>'',
      ''        \<newline>'',
      ''        P.A.R.A Categories:\<newline>'',
      ''        1. 01-Projects: Tasks with clear deadlines and specific deliverables\<newline>'',
      ''        2. 02-Areas: Areas that need ongoing maintenance and management\<newline>'',
      ''        3. 03-Resources: Information that may be useful in the future\<newline>'',
      ''        4. 04-Archives: Completed projects or inactive areas\<newline>'',
      ''        \<newline>'',
      ''        Please respond with a JSON object containing:\<newline>'',
      ''        - category: The P.A.R.A category (01-Projects, 02-Areas, 03-Resources, 04-Archives)\<newline>'',
      ''        - confidence: Confidence score (0-1)\<newline>'',
      ''        - priority: Priority level (urgent, important, normal)\<newline>'',
      ''        - status: Status (active, completed, on-hold)\<newline>'',
      ''        - complexity: Complexity level (low, medium, high)\<newline>'',
      ''        - estimated_time: Estimated time to complete/process (e.g., \"30 minutes\", \"2 hours\", \"1 day\")\<newline>'',
      ''        - reasoning: Brief explanation of the classification decision\<newline>'',
      ''        '']"

text \<open>
  One remote tier of \<^verbatim>\<open>classify_content\<close>, the body of a \<^verbatim>\<open>try\<close>: call the
  service, parse, save, record the service's health, build the response. Whatever
  raises in it leaves the body with the world as it is by then.
\<close>

definition classification_tier ::
  "env \<Rightarrow> string \<Rightarrow> string \<Rightarrow> string \<Rightarrow> world \<Rightarrow> (py_error + ClassificationResponse) \<times> world" where
  "classification_tier e content prompt service w =
     (case call_ai_service e Classification prompt service w of
        (Inl err, w1) \<Rightarrow> (Inl err, w1)
      | (Inr response, w1) \<Rightarrow>
          (case parse_classification_response (loads_classification e) response of
             Inl err \<Rightarrow> (Inl err, w1)
           | Inr classification \<Rightarrow>
               (let processing_time = elapsed_ms e (sessions w1) in
                case save_classification e content classification service processing_time w1 of
                  (Inl err, w2) \<Rightarrow> (Inl err, w2)
                | (Inr classification_id, w2) \<Rightarrow>
                    (case update_ai_service_status e service ''active'' (Some processing_time)
                            0 1 w2 of
                       (Inl err, w3) \<Rightarrow> (Inl err, w3)
                     | (Inr u, w3) \<Rightarrow> (make_ClassificationResponse classification, w3)))))"

text \<open>The last tier: the handler of the inner \<^verbatim>\<open>try\<close>, itself unguarded.\<close>

definition classification_fallback_tier ::
  "env \<Rightarrow> string \<Rightarrow> world \<Rightarrow> (py_error + ClassificationResponse) \<times> world" where
  "classification_fallback_tier e content w =
     (let fallback_result = fallback_classification content;
          processing_time = elapsed_ms e (sessions w)
      in case save_classification e content (dict_of_response fallback_result) ''fallback''
                processing_time w of
           (Inl err, w1) \<Rightarrow> (Inl err, w1)
         | (Inr classification_id, w1) \<Rightarrow>
             (case update_ai_service_status e ''fallback'' ''active'' (Some processing_time)
                     0 1 w1 of
                (Inl err, w2) \<Rightarrow> (Inl err, w2)
              | (Inr u, w2) \<Rightarrow> (Inr fallback_result, w2)))"

definition cached_response :: "history \<Rightarrow> ClassificationResponse" where
  "cached_response existing_classification =
     \<lparr>category = h_category existing_classification,
      confidence = h_confidence existing_classification,
      priority = h_priority existing_classification,
      status = h_status existing_classification,
      complexity = h_complexity existing_classification,
      estimated_time = h_estimated_time existing_classification,
      reasoning = h_reasoning existing_classification\<rparr>"

definition classify_content ::
  "env \<Rightarrow> string \<Rightarrow> string option \<Rightarrow> world \<Rightarrow> (py_error + ClassificationResponse) \<times> world" where
  "classify_content e content context w =
     (let content_hash = generate_content_hash e content in
      case get_classification_history e content_hash w of
        (Inl err, w0) \<Rightarrow> (Inl err, w0)
      | (Inr (Some existing_classification), w0) \<Rightarrow>
          (Inr (cached_response existing_classification), w0)
      | (Inr None, w0) \<Rightarrow>
          (let prompt = create_classification_prompt content context in
           case classification_tier e content prompt (primary_ai_service e) w0 of
             (Inr r, w1) \<Rightarrow> (Inr r, w1)
           | (Inl err, w1) \<Rightarrow>
               (case classification_tier e content prompt (fallback_ai_service e) w1 of
                  (Inr r, w2) \<Rightarrow> (Inr r, w2)
                | (Inl fallback_error, w2) \<Rightarrow> classification_fallback_tier e content w2)))"

subsection \<open>AITaggingService\<close>

record TaggingResponse =
  smart_tags :: "string list"
  tagging_confidence :: real
  semantic_groups :: "(string \<times> string list) list"
  related_topics :: "string list"

definition dict_of_tagging :: "TaggingResponse \<Rightarrow> tags_data" where
  "dict_of_tagging r =
     \<lparr>t_smart_tags = Some (smart_tags r), t_confidence = Some (tagging_confidence r),
      t_semantic_groups = Some (semantic_groups r), t_related_topics = Some (related_topics r)\<rparr>"

definition missing_tagging_fields :: "tags_data \<Rightarrow> string list" where
  "missing_tagging_fields d =
     (if t_smart_tags d = None then [''smart_tags''] else []) @
     (if t_confidence d = None then [''confidence''] else []) @
     (if t_semantic_groups d = None then [''semantic_groups''] else []) @
     (if t_related_topics d = None then [''related_topics''] else [])"

definition make_TaggingResponse :: "tags_data \<Rightarrow> py_error + TaggingResponse" where
  "make_TaggingResponse d =
     (if missing_tagging_fields d \<noteq> [] then Inl (ValidationError (missing_tagging_fields d))
      else Inr \<lparr>smart_tags = the (t_smart_tags d), tagging_confidence = the (t_confidence d),
                semantic_groups = the (t_semantic_groups d),
                related_topics = the (t_related_topics d)\<rparr>)"

definition fallback_tagging_data :: tags_data where
  "fallback_tagging_data =
     \<lparr>t_smart_tags = Some [''content'', ''analysis'', ''knowledge''],
      t_confidence = Some 0.3,
      t_semantic_groups = Some [(''general'', [''content'', ''analysis''])],
      t_related_topics = Some [''knowledge management'']\<rparr>"

definition parse_tagging_response ::
  "(string \<Rightarrow> py_error + tags_data) \<Rightarrow> string \<Rightarrow> py_error + tags_data" where
  "parse_tagging_response loads response =
     (case (case re_search_braces response of
              Some json_match \<Rightarrow> loads json_match
            | None \<Rightarrow> Inl (ValueError ''No JSON found in response'')) of
        Inr d \<Rightarrow> Inr d
      | Inl e \<Rightarrow> Inr fallback_tagging_data)"

definition common_words :: "string list" where
  "common_words = [''the'', ''a'', ''an'', ''and'', ''or'', ''but'', ''in'', ''on'', ''at'', ''to'',
                   ''for'', ''of'', ''with'', ''by'']"

definition fallback_tagging :: "string \<Rightarrow> TaggingResponse" where
  "fallback_tagging content =
     (let words = str_split (lower content);
          unique_words = filter (\<lambda>word. word \<notin> set common_words \<and> length word > 3) words
      in \<lparr>smart_tags = take 5 unique_words,
          tagging_confidence = 0.4,
          semantic_groups = [(''general'', take 3 unique_words)],
          related_topics = [''content analysis'', ''knowledge management'']\<rparr>)"

definition create_tagging_prompt ::
  "string \<Rightarrow> string option \<Rightarrow> string option \<Rightarrow> string option \<Rightarrow> string" where
  "create_tagging_prompt content title cat analysis = concat
     [''\<newline>'',
      ''        Generate smart tags for the following content:\<newline>'',
      ''        \<newline>'',
      ''        Title: '', py_or title ''No title'', ''\<newline>'',
      ''        Content: '', take 500 content, ''...\<newline>'',
      ''        Category: '', py_or cat ''Unknown'', ''\<newline>'',
      ''        Analysis: '', py_or analysis ''None'', ''\<newline>'',
      ''        \<newline>'',
      ''        Please respond with a JSON object containing:\<newline>'',
      ''        - smart_tags: List of 5-10 relevant, specific tags\<newline>'',
      ''        - confidence: Confidence score (0-1)\<newline>'',
      ''        - semantic_groups: Object grouping related tags (e.g., {\"technical\": [\"api\", \"database\"], \"business\": [\"strategy\", \"planning\"]})\<newline>'',
      ''        - related_topics: List of 3-5 related topics for further exploration\<newline>'',
      ''        \<newline>'',
      ''        Focus on:\<newline>'',
      ''        - Specific, actionable tags\<newline>'',
      ''        - Technical terms when appropriate\<newline>'',
      ''        - Business context\<newline>'',
      ''        - Time sensitivity\<newline>'',
      ''        - Complexity indicators\<newline>'',
      ''        '']"

text \<open>
  A dictionary comprehension \<^verbatim>\<open>{k: v for ...}\<close>: a later value for a key replaces
  the earlier one where it stands.
\<close>

fun dict_put :: "('k \<times> 'v) list \<Rightarrow> 'k \<Rightarrow> 'v \<Rightarrow> ('k \<times> 'v) list" where
  "dict_put [] k v = [(k, v)]"
| "dict_put ((k', v') # d) k v = (if k' = k then (k, v) # d else (k', v') # dict_put d k v)"

text \<open>The response served from the stored tags.\<close>

definition cached_tags :: "tag_entry list \<Rightarrow> TaggingResponse" where
  "cached_tags tags =
     \<lparr>smart_tags = map te_tag tags,
      tagging_confidence =
        (if tags \<noteq> [] then sum_list (map te_confidence tags) / real (length tags) else 0.5),
      semantic_groups = foldl (\<lambda>d tag. dict_put d (te_group tag) [te_tag tag]) [] tags,
      related_topics = []\<rparr>"

text \<open>\<^verbatim>\<open>if existing_classification: db_manager.save_tags(...)\<close>.\<close>

definition save_tags_if ::
  "env \<Rightarrow> history option \<Rightarrow> tags_data \<Rightarrow> string \<Rightarrow> world \<Rightarrow> (py_error + unit) \<times> world" where
  "save_tags_if e existing_classification tags_data service w =
     (case existing_classification of
        Some h \<Rightarrow> save_tags e (h_id h) tags_data service (elapsed_ms e (sessions w)) w
      | None \<Rightarrow> (Inr (), w))"

definition tagging_tier ::
  "env \<Rightarrow> history option \<Rightarrow> string \<Rightarrow> string \<Rightarrow> world \<Rightarrow> (py_error + TaggingResponse) \<times> world" where
  "tagging_tier e existing_classification prompt service w =
     (case call_ai_service e Tagging prompt service w of
        (Inl err, w1) \<Rightarrow> (Inl err, w1)
      | (Inr response, w1) \<Rightarrow>
          (case parse_tagging_response (loads_tagging e) response of
             Inl err \<Rightarrow> (Inl err, w1)
           | Inr tags_data \<Rightarrow>
               (case save_tags_if e existing_classification tags_data service w1 of
                  (Inl err, w2) \<Rightarrow> (Inl err, w2)
                | (Inr u, w2) \<Rightarrow>
                    (case update_ai_service_status e service ''active''
                            (Some (elapsed_ms e (sessions w2))) 0 1 w2 of
                       (Inl err, w3) \<Rightarrow> (Inl err, w3)
                     | (Inr u', w3) \<Rightarrow> (make_TaggingResponse tags_data, w3)))))"

definition tagging_fallback_tier ::
  "env \<Rightarrow> history option \<Rightarrow> string \<Rightarrow> world \<Rightarrow> (py_error + TaggingResponse) \<times> world" where
  "tagging_fallback_tier e existing_classification content w =
     (let fallback_result = fallback_tagging content in
      case save_tags_if e existing_classification (dict_of_tagging fallback_result) ''fallback'' w of
        (Inl err, w1) \<Rightarrow> (Inl err, w1)
      | (Inr u, w1) \<Rightarrow> (Inr fallback_result, w1))"

definition generate_smart_tags ::
  "env \<Rightarrow> string \<Rightarrow> string option \<Rightarrow> string option \<Rightarrow> string option \<Rightarrow> world \<Rightarrow>
   (py_error + TaggingResponse) \<times> world" where
  "generate_smart_tags e content title cat analysis w =
     (let content_hash = generate_content_hash e content in
      case get_classification_history e content_hash w of
        (Inl err, w0) \<Rightarrow> (Inl err, w0)
      | (Inr existing_classification, w0) \<Rightarrow>
          (if existing_classification \<noteq> None \<and> h_tags (the existing_classification) \<noteq> [] then
             (Inr (cached_tags (h_tags (the existing_classification))), w0)
           else
             (let prompt = create_tagging_prompt content title cat analysis in
              case tagging_tier e existing_classification prompt (primary_ai_service e) w0 of
                (Inr r, w1) \<Rightarrow> (Inr r, w1)
              | (Inl err, w1) \<Rightarrow>
                  (case tagging_tier e existing_classification prompt (fallback_ai_service e) w1 of
                     (Inr r, w2) \<Rightarrow> (Inr r, w2)
                   | (Inl fallback_error, w2) \<Rightarrow>
                       tagging_fallback_tier e existing_classification content w2))))"

subsection \<open>AIAnalysisService\<close>

record AnalysisResponse =
  entities :: "string list"
  sentiment :: string
  complexity_score :: real
  key_concepts :: "string list"
  summary :: string
  language :: string

definition dict_of_analysis :: "AnalysisResponse \<Rightarrow> analysis_data" where
  "dict_of_analysis r =
     \<lparr>a_entities = Some (entities r), a_sentiment = Some (sentiment r),
      a_complexity_score = Some (complexity_score r), a_key_concepts = Some (key_concepts r),
      a_summary = Some (summary r), a_language = Some (language r)\<rparr>"

definition missing_analysis_fields :: "analysis_data \<Rightarrow> string list" where
  "missing_analysis_fields d =
     (if a_entities d = None then [''entities''] else []) @
     (if a_sentiment d = None then [''sentiment''] else []) @
     (if a_complexity_score d = None then [''complexity_score''] else []) @
     (if a_key_concepts d = None then [''key_concepts''] else []) @
     (if a_summary d = None then [''summary''] else []) @
     (if a_language d = None then [''language''] else [])"

definition make_AnalysisResponse :: "analysis_data \<Rightarrow> py_error + AnalysisResponse" where
  "make_AnalysisResponse d =
     (if missing_analysis_fields d \<noteq> [] then Inl (ValidationError (missing_analysis_fields d))
      else Inr \<lparr>entities = the (a_entities d), sentiment = the (a_sentiment d),
                complexity_score = the (a_complexity_score d),
                key_concepts = the (a_key_concepts d), summary = the (a_summary d),
                language = the (a_language d)\<rparr>)"

definition fallback_analysis_data :: analysis_data where
  "fallback_analysis_data =
     \<lparr>a_entities = Some [''content''], a_sentiment = Some ''neutral'',
      a_complexity_score = Some 0.5, a_key_concepts = Some [''knowledge'', ''management''],
      a_summary = Some ''Basic content analysis completed.'', a_language = Some ''English''\<rparr>"

definition parse_analysis_response ::
  "(string \<Rightarrow> py_error + analysis_data) \<Rightarrow> string \<Rightarrow> py_error + analysis_data" where
  "parse_analysis_response loads response =
     (case (case re_search_braces response of
              Some json_match \<Rightarrow> loads json_match
            | None \<Rightarrow> Inl (ValueError ''No JSON found in response'')) of
        Inr d \<Rightarrow> Inr d
      | Inl e \<Rightarrow> Inr fallback_analysis_data)"

definition fallback_analysis :: "string \<Rightarrow> AnalysisResponse" where
  "fallback_analysis content =
     \<lparr>entities = [''content''], sentiment = ''neutral'', complexity_score = 0.5,
      key_concepts = [''knowledge'', ''management''],
      summary = ''Content analysis completed with basic processing.'',
      language = ''English''\<rparr>"

definition create_analysis_prompt :: "string \<Rightarrow> string option \<Rightarrow> string option \<Rightarrow> string" where
  "create_analysis_prompt content title context = concat
     [''\<newline>'',
      ''        Analyze the following content and provide insights:\<newline>'',
      ''        \<newline>'',
      ''        Title: '', py_or title ''No title'', ''\<newline>'',
      ''        Content: '', take 1000 content, ''...\<newline>'',
      ''        Context: '', py_or context ''None'', ''\<newline>'',
      ''        \<newline>'',
      ''        Please respond with a JSON object containing:\<newline>'',
      ''        - entities: List of important entities (people, places, organizations, concepts)\<newline>'',
      ''        - sentiment: Overall sentiment (positive, negative, neutral)\<newline>'',
      ''        - complexity_score: Complexity score (0-1, where 1 is most complex)\<newline>'',
      ''        - key_concepts: List of 3-5 key concepts or themes\<newline>'',
      ''        - summary: Brief 2-3 sentence summary\<newline>'',
      ''        - language: Detected language (e.g., \"English\", \"Spanish\")\<newline>'',
      ''        '']"

definition cached_analysis :: "analysis_entry \<Rightarrow> AnalysisResponse" where
  "cached_analysis analysis =
     \<lparr>entities = ae_entities analysis, sentiment = ae_sentiment analysis,
      complexity_score = ae_complexity_score analysis,
      key_concepts = ae_key_concepts analysis, summary = ae_summary analysis,
      language = ae_language analysis\<rparr>"

definition save_analysis_if ::
  "env \<Rightarrow> history option \<Rightarrow> analysis_data \<Rightarrow> string \<Rightarrow> world \<Rightarrow> (py_error + unit) \<times> world" where
  "save_analysis_if e existing_classification analysis_data service w =
     (case existing_classification of
        Some h \<Rightarrow> save_analysis e (h_id h) analysis_data service (elapsed_ms e (sessions w)) w
      | None \<Rightarrow> (Inr (), w))"

definition analysis_tier ::
  "env \<Rightarrow> history option \<Rightarrow> string \<Rightarrow> string \<Rightarrow> world \<Rightarrow> (py_error + AnalysisResponse) \<times> world" where
  "analysis_tier e existing_classification prompt service w =
     (case call_ai_service e Analysis prompt service w of
        (Inl err, w1) \<Rightarrow> (Inl err, w1)
      | (Inr response, w1) \<Rightarrow>
          (case parse_analysis_response (loads_analysis e) response of
             Inl err \<Rightarrow> (Inl err, w1)
           | Inr analysis_data \<Rightarrow>
               (case save_analysis_if e existing_classification analysis_data service w1 of
                  (Inl err, w2) \<Rightarrow> (Inl err, w2)
                | (Inr u, w2) \<Rightarrow>
                    (case update_ai_service_status e service ''active''
                            (Some (elapsed_ms e (sessions w2))) 0 1 w2 of
                       (Inl err, w3) \<Rightarrow> (Inl err, w3)
                     | (Inr u', w3) \<Rightarrow> (make_AnalysisResponse analysis_data, w3)))))"

definition analysis_fallback_tier ::
  "env \<Rightarrow> history option \<Rightarrow> string \<Rightarrow> world \<Rightarrow> (py_error + AnalysisResponse) \<times> world" where
  "analysis_fallback_tier e existing_classification content w =
     (let fallback_result = fallback_analysis content in
      case save_analysis_if e existing_classification (dict_of_analysis fallback_result)
             ''fallback'' w of
        (Inl err, w1) \<Rightarrow> (Inl err, w1)
      | (Inr u, w1) \<Rightarrow> (Inr fallback_result, w1))"

definition analyze_content ::
  "env \<Rightarrow> string \<Rightarrow> string option \<Rightarrow> string option \<Rightarrow> world \<Rightarrow>
   (py_error + AnalysisResponse) \<times> world" where
  "analyze_content e content title context w =
     (let content_hash = generate_content_hash e content in
      case get_classification_history e content_hash w of
        (Inl err, w0) \<Rightarrow> (Inl err, w0)
      | (Inr existing_classification, w0) \<Rightarrow>
          (if existing_classification \<noteq> None \<and> h_analysis (the existing_classification) \<noteq> None then
             (Inr (cached_analysis (the (h_analysis (the existing_classification)))), w0)
           else
             (let prompt = create_analysis_prompt content title context in
              case analysis_tier e existing_classification prompt (primary_ai_service e) w0 of
                (Inr r, w1) \<Rightarrow> (Inr r, w1)
              | (Inl err, w1) \<Rightarrow>
                  (case analysis_tier e existing_classification prompt (fallback_ai_service e) w1 of
                     (Inr r, w2) \<Rightarrow> (Inr r, w2)
                   | (Inl fallback_error, w2) \<Rightarrow>
                       analysis_fallback_tier e existing_classification content w2))))"

subsection \<open>Notions used in the statements\<close>




text \<open>The tag rows that \<^verbatim>\<open>save_tags\<close> builds from a payload.\<close>

definition new_tags :: "nat \<Rightarrow> tags_data \<Rightarrow> ContentTag list" where
  "new_tags classification_id tags_data =
     map (\<lambda>tag. \<lparr>ct_classification_id = classification_id, ct_tag = tag,
                  ct_confidence = get_or (t_confidence tags_data) 0.5,
                  ct_semantic_group = ''general''\<rparr>)
       (get_or (t_smart_tags tags_data) [])"

subsection \<open>Environments of the examples\<close>

text \<open>
  In the examples \<^verbatim>\<open>json.loads\<close> is the finite table of the texts it parses and
  raises on every other text, the digest is the text itself, the clocks count
  the sessions, both remote services are down and the database never fails,
  unless said otherwise.
\<close>

definition loads_table :: "(string \<times> 'd) list \<Rightarrow> string \<Rightarrow> py_error + 'd" where
  "loads_table table text =
     (case map_of table text of Some d \<Rightarrow> Inr d | None \<Rightarrow> Inl JSONDecodeError)"

definition example_env :: env where
  "example_env =
     \<lparr>primary_ai_service = ''anthropic'', fallback_ai_service = ''openai'',
      api = (\<lambda>t s p n. None),
      loads_classification = loads_table [],
      loads_tagging = loads_table [],
      loads_analysis = loads_table [],
      sha256_hexdigest = (\<lambda>b. b),
      utcnow = (\<lambda>n. int n),
      elapsed_ms = (\<lambda>n. int n),
      db_raises = (\<lambda>op n. None)\<rparr>"

text \<open>The primary service answers with an object that has the category only.\<close>

definition category_only :: classification_data where
  "category_only =
     \<lparr>d_category = Some ''01-Projects'', d_confidence = None, d_priority = None,
      d_status = None, d_complexity = None, d_estimated_time = None, d_reasoning = None\<rparr>"

definition partial_reply_env :: env where
  "partial_reply_env =
     example_env
       \<lparr>api := (\<lambda>t s p n. if s = ''anthropic'' then Some ''{\"category\": \"01-Projects\"}''
                          else None),
        loads_classification :=
          loads_table [(''{\"category\": \"01-Projects\"}'', category_only)]\<rparr>"


text \<open>Every database session fails.\<close>

definition db_down_env :: env where
  "db_down_env =
     example_env\<lparr>db_raises := (\<lambda>op n. Some (OperationalError ''connection refused''))\<rparr>"

text \<open>The primary service answers a tagging request.\<close>

definition roadmap_tags :: tags_data where
  "roadmap_tags =
     \<lparr>t_smart_tags = Some [''roadmap''], t_confidence = Some 0.9,
      t_semantic_groups = Some [(''planning'', [''roadmap''])],
      t_related_topics = Some [''strategy'']\<rparr>"

definition roadmap_reply :: string where
  "roadmap_reply =
     ''{\"smart_tags\": [\"roadmap\"], \"confidence\": 0.9, '' @
     ''\"semantic_groups\": {\"planning\": [\"roadmap\"]}, \"related_topics\": [\"strategy\"]}''"

definition tagging_env :: env where
  "tagging_env =
     example_env
       \<lparr>api := (\<lambda>t s p n. if t = Tagging \<and> s = ''anthropic'' then Some roadmap_reply else None),
        loads_tagging := loads_table [(roadmap_reply, roadmap_tags)]\<rparr>"

text \<open>Two stores of the examples: one health row, and tags of two classifications.\<close>

definition one_status_world :: world where
  "one_status_world =
     empty_world\<lparr>ai_service_status :=
       [\<lparr>ss_service_name = ''anthropic'', ss_status = ''error'', ss_response_time_ms = Some 120,
         ss_last_successful_call = None, ss_error_count = 2, ss_success_count = 5,
         ss_updated_at = 1\<rparr>]\<rparr>"





section \<open>Properties\<close>

subsection \<open>Substrings and the match of the regular expression\<close>



lemma re_search_braces_span:
  assumes "CHR ''{'' \<notin> set pre" "CHR ''}'' \<notin> set post"
  shows "re_search_braces (pre @ ''{'' @ body @ ''}'' @ post) = Some (''{'' @ body @ ''}'')"
proof -
  have 1: "dropWhile (\<lambda>c. c \<noteq> CHR ''{'') (pre @ ''{'' @ body @ ''}'' @ post) = CHR ''{'' # (body @ ''}'' @ post)"
    using assms(1) by (auto simp: dropWhile_append3)
  have 2: "dropWhile (\<lambda>c. c \<noteq> CHR ''}'') (rev post @ CHR ''}'' # rev body) = CHR ''}'' # rev body"
    using assms(2) by (auto simp: dropWhile_append3)
  show ?thesis unfolding re_search_braces_def 1 by (simp add: 2)
qed

lemma re_search_braces_Some:
  assumes "re_search_braces response = Some m"
  shows "\<exists>pre body post. response = pre @ ''{'' @ body @ ''}'' @ post \<and> CHR ''{'' \<notin> set pre \<and>
           CHR ''}'' \<notin> set post \<and> m = ''{'' @ body @ ''}''"
proof -
  let ?P = "\<lambda>c. c \<noteq> CHR ''{''" and ?Q = "\<lambda>c. c \<noteq> CHR ''}''"
  obtain b after where d1: "dropWhile ?P response = b # after"
    using assms by (auto simp: re_search_braces_def split: list.splits)
  have b: "b = CHR ''{''" using hd_dropWhile[of ?P response] d1 by auto
  obtain x r where d2: "dropWhile ?Q (rev after) = x # r" and m: "m = b # rev (x # r)"
    using assms d1 by (auto simp: re_search_braces_def split: list.splits)
  have x: "x = CHR ''}''" using hd_dropWhile[of ?Q "rev after"] d2 by auto
  have "response = takeWhile ?P response @ b # after"
    using takeWhile_dropWhile_id[of ?P response] d1 by simp
  moreover have "rev after = takeWhile ?Q (rev after) @ x # r"
    using takeWhile_dropWhile_id[of ?Q "rev after"] d2 by simp
  then have "after = rev r @ x # rev (takeWhile ?Q (rev after))"
    by (metis rev_append rev.simps(2) rev_rev_ident append_Cons append_Nil append_assoc)
  moreover have "CHR ''{'' \<notin> set (takeWhile ?P response)"
    using set_takeWhileD by fastforce
  moreover have "CHR ''}'' \<notin> set (rev (takeWhile ?Q (rev after)))"
    using set_takeWhileD by fastforce
  ultimately show ?thesis using b x m
    by (intro exI[of _ "takeWhile ?P response"] exI[of _ "rev r"]
          exI[of _ "rev (takeWhile ?Q (rev after))"]) auto
qed

subsection \<open>Lists of rows\<close>

lemma length_update_first [simp]: "length (update_first P f xs) = length xs"
  by (induction xs) auto

lemma update_first_nth_mono:
  fixes c :: "'a \<Rightarrow> int"
  assumes "\<And>x. g (f x) = g x" "\<And>x. c x \<le> c (f x)"
  shows "i < length xs \<Longrightarrow> g (update_first P f xs ! i) = g (xs ! i) \<and> c (xs ! i) \<le> c (update_first P f xs ! i)"
proof (induction xs arbitrary: i)
  case Nil then show ?case by simp
next
  case (Cons x xs)
  then show ?case using assms by (cases i) auto
qed








subsection \<open>Evaluation\<close>

lemmas eval_simps =
  classify_content_def classification_tier_def classification_fallback_tier_def
  get_classification_history_def save_classification_def update_ai_service_status_def
  save_tags_def save_analysis_def with_session_def call_ai_service_def call_anthropic_def
  call_openai_def call_perplexity_def parse_classification_response_def re_search_braces_def
  loads_table_def make_ClassificationResponse_def missing_fields_def generate_content_hash_def
  log_processing_def get_or_def Let_def empty_world_def example_env_def partial_reply_env_def
  category_only_def dict_of_response_def history_of_def cached_response_def

lemmas tagging_simps =
  generate_smart_tags_def tagging_tier_def tagging_fallback_tier_def save_tags_if_def
  parse_tagging_response_def make_TaggingResponse_def missing_tagging_fields_def
  fallback_tagging_def str_split_def isspace_def common_words_def lower_def lower_char_def
  dict_of_tagging_def general_group_def cached_tags_def tagging_env_def roadmap_tags_def
  fallback_tagging_data_def new_tags_def

lemmas analysis_simps =
  analyze_content_def analysis_tier_def analysis_fallback_tier_def save_analysis_if_def
  parse_analysis_response_def make_AnalysisResponse_def missing_analysis_fields_def
  fallback_analysis_def dict_of_analysis_def cached_analysis_def fallback_analysis_data_def


lemma fallback_classification_plan: "fallback_classification ''Plan the week'' = default_to_areas"
  by (simp add: fallback_classification_def lower_def lower_char_def PARA_CLASSIFICATION_MODEL_def)

subsection \<open>What the operations return and what they leave alone\<close>

lemma get_classification_history_result:
  "get_classification_history e h w =
     (Inr (if db_raises e ReadHistory (sessions w) = None
           then map_option (history_of (w\<lparr>sessions := Suc (sessions w)\<rparr>))
                  (find (\<lambda>c. cc_content_hash c = h) (content_classifications w))
           else None),
      w\<lparr>sessions := Suc (sessions w)\<rparr>)"
  by (auto simp: get_classification_history_def with_session_def Let_def split: option.splits)





subsection \<open>The health counters\<close>

lemma update_ai_service_status_cases:
  obtains (unchanged) w' where
      "update_ai_service_status e service_name st rt ec sc w = (Inr (), w')"
      "ai_service_status w' = ai_service_status w"
  | (inserted) w' row where
      "update_ai_service_status e service_name st rt ec sc w = (Inr (), w')"
      "ai_service_status w' = ai_service_status w @ [row]"
  | (updated) w' f where
      "update_ai_service_status e service_name st rt ec sc w = (Inr (), w')"
      "ai_service_status w' =
         update_first (\<lambda>s. ss_service_name s = service_name) f (ai_service_status w)"
      "\<And>x. ss_service_name (f x) = ss_service_name x"
      "\<And>x. ss_error_count (f x) = ss_error_count x + ec"
      "\<And>x. ss_success_count (f x) = ss_success_count x + sc"
proof (cases "db_raises e UpdateStatus (sessions w)")
  case (Some err)
  then have "update_ai_service_status e service_name st rt ec sc w
             = (Inr (), w\<lparr>sessions := Suc (sessions w)\<rparr>)"
    by (simp add: update_ai_service_status_def with_session_def)
  then show ?thesis using unchanged by simp
next
  case None
  show ?thesis
  proof (cases "find (\<lambda>s. ss_service_name s = service_name) (ai_service_status w)")
    case fnone: None
    show ?thesis
      by (rule inserted, simp add: update_ai_service_status_def with_session_def Let_def None fnone, simp)
  next
    case (Some row)
    define f where "f = (\<lambda>x::AIServiceStatus. x\<lparr>ss_status := st, ss_response_time_ms := rt,
        ss_error_count := ss_error_count x + ec, ss_success_count := ss_success_count x + sc,
        ss_last_successful_call :=
          (if st = ''active'' then Some (utcnow e (Suc (sessions w))) else ss_last_successful_call x),
        ss_updated_at := utcnow e (Suc (sessions w))\<rparr>)"
    have "update_ai_service_status e service_name st rt ec sc w =
            (Inr (), w\<lparr>sessions := Suc (sessions w),
                        ai_service_status :=
                          update_first (\<lambda>s. ss_service_name s = service_name) f (ai_service_status w)\<rparr>)"
      by (simp add: update_ai_service_status_def with_session_def Let_def None Some f_def cong: if_cong)
    then show ?thesis
      by (rule updated[where f=f]) (simp_all add: f_def)
  qed
qed

lemma update_ai_service_status_returns:
  "\<exists>w'. update_ai_service_status e service_name st rt ec sc w = (Inr (), w')"
  by (auto simp: update_ai_service_status_def with_session_def Let_def split: option.splits)

text \<open>
  Claim C10. \<^verbatim>\<open>update_ai_service_status\<close> never raises, and when the deltas
  \<open>error_count\<close> and \<open>success_count\<close> are not negative no stored counter decreases:
  every row that was in the table is still there at its place, under the same
  service name, with an error count and a success count at least as large.
\<close>

theorem update_ai_service_status_monotone:
  assumes "0 \<le> error_count" "0 \<le> success_count"
  shows "\<exists>w'. update_ai_service_status e service_name st response_time_ms error_count success_count w
               = (Inr (), w') \<and>
           length (ai_service_status w) \<le> length (ai_service_status w') \<and>
           (\<forall>i < length (ai_service_status w).
              ss_service_name (ai_service_status w' ! i) = ss_service_name (ai_service_status w ! i) \<and>
              ss_error_count (ai_service_status w ! i) \<le> ss_error_count (ai_service_status w' ! i) \<and>
              ss_success_count (ai_service_status w ! i) \<le> ss_success_count (ai_service_status w' ! i))"
proof -
  obtain w' where r: "update_ai_service_status e service_name st response_time_ms error_count success_count w
               = (Inr (), w')" using update_ai_service_status_returns by blast
  consider "ai_service_status w' = ai_service_status w"
    | row where "ai_service_status w' = ai_service_status w @ [row]"
    | f where "ai_service_status w' = update_first (\<lambda>s. ss_service_name s = service_name) f (ai_service_status w)"
       "\<And>x. ss_service_name (f x) = ss_service_name x"
       "\<And>x. ss_error_count (f x) = ss_error_count x + error_count"
       "\<And>x. ss_success_count (f x) = ss_success_count x + success_count"
    using r by (cases rule: update_ai_service_status_cases
                  [of e service_name st response_time_ms error_count success_count w]) auto
  then have "length (ai_service_status w) \<le> length (ai_service_status w') \<and>
           (\<forall>i < length (ai_service_status w).
              ss_service_name (ai_service_status w' ! i) = ss_service_name (ai_service_status w ! i) \<and>
              ss_error_count (ai_service_status w ! i) \<le> ss_error_count (ai_service_status w' ! i) \<and>
              ss_success_count (ai_service_status w ! i) \<le> ss_success_count (ai_service_status w' ! i))"
  proof cases
    case 1 then show ?thesis by simp
  next
    case 2 then show ?thesis by (simp add: nth_append)
  next
    case 3
    have a: "\<And>i. i < length (ai_service_status w) \<Longrightarrow>
        ss_service_name (ai_service_status w' ! i) = ss_service_name (ai_service_status w ! i) \<and>
        ss_error_count (ai_service_status w ! i) \<le> ss_error_count (ai_service_status w' ! i)"
      unfolding 3(1) by (rule update_first_nth_mono) (use assms 3 in auto)
    have b: "\<And>i. i < length (ai_service_status w) \<Longrightarrow>
        ss_service_name (ai_service_status w' ! i) = ss_service_name (ai_service_status w ! i) \<and>
        ss_success_count (ai_service_status w ! i) \<le> ss_success_count (ai_service_status w' ! i)"
      unfolding 3(1) by (rule update_first_nth_mono) (use assms 3 in auto)
    show ?thesis using a b 3(1) by simp
  qed
  with r show ?thesis by blast
qed

text \<open>
  The update of a health row with two errors and five successes by one success.
\<close>

theorem update_ai_service_status_monotone_witness:
  "(0::int) \<le> 0 \<and> (0::int) \<le> 1 \<and>
   fst (update_ai_service_status example_env ''anthropic'' ''active'' (Some 80) 0 1
          one_status_world) = Inr () \<and>
   map ss_error_count
     (ai_service_status (snd (update_ai_service_status example_env ''anthropic'' ''active''
        (Some 80) 0 1 one_status_world))) = [2] \<and>
   map ss_success_count
     (ai_service_status (snd (update_ai_service_status example_env ''anthropic'' ''active''
        (Some 80) 0 1 one_status_world))) = [6]"
  using update_ai_service_status_monotone
          [of 0 1 example_env "''anthropic''" "''active''" "Some 80" one_status_world]
  by (simp add: eval_simps one_status_world_def)

subsection \<open>One classification for each hash\<close>








subsection \<open>Errors of the store\<close>

text \<open>
  Claim C6. An exception raised in the session of \<^verbatim>\<open>get_classification_history\<close> is
  caught: the read returns \<^verbatim>\<open>None\<close>, exactly what it returns when no row has the
  hash. An exception raised in the session of \<^verbatim>\<open>save_classification\<close>,
  \<^verbatim>\<open>save_tags\<close> or \<^verbatim>\<open>save_analysis\<close> is raised again to the caller, and nothing of
  the write is kept.
\<close>

theorem persistence_error_policy:
  "(db_raises e ReadHistory (sessions w) = Some err \<longrightarrow>
      get_classification_history e h w = (Inr None, w\<lparr>sessions := Suc (sessions w)\<rparr>)) \<and>
   (db_raises e ReadHistory (sessions w) = None \<and>
    find (\<lambda>c. cc_content_hash c = h) (content_classifications w) = None \<longrightarrow>
      get_classification_history e h w = (Inr None, w\<lparr>sessions := Suc (sessions w)\<rparr>)) \<and>
   (db_raises e SaveClassification (sessions w) = Some err \<longrightarrow>
      save_classification e content d s t w = (Inl err, w\<lparr>sessions := Suc (sessions w)\<rparr>)) \<and>
   (db_raises e SaveTags (sessions w) = Some err \<longrightarrow>
      save_tags e i td s t w = (Inl err, w\<lparr>sessions := Suc (sessions w)\<rparr>)) \<and>
   (db_raises e SaveAnalysis (sessions w) = Some err \<longrightarrow>
      save_analysis e i ad s t w = (Inl err, w\<lparr>sessions := Suc (sessions w)\<rparr>))"
  by (simp add: get_classification_history_result save_classification_def save_tags_def
        save_analysis_def with_session_def)

text \<open>
  The four operations with the database refusing connections, and a read of the
  empty store.
\<close>

theorem persistence_error_policy_witness:
  "db_raises db_down_env ReadHistory (sessions empty_world) = Some (OperationalError ''connection refused'') \<and>
   get_classification_history db_down_env ''abc'' empty_world =
     (Inr None, empty_world\<lparr>sessions := Suc (sessions empty_world)\<rparr>) \<and>
   db_raises example_env ReadHistory (sessions empty_world) = None \<and>
   find (\<lambda>c. cc_content_hash c = ''abc'') (content_classifications empty_world) = None \<and>
   get_classification_history example_env ''abc'' empty_world =
     (Inr None, empty_world\<lparr>sessions := Suc (sessions empty_world)\<rparr>) \<and>
   db_raises db_down_env SaveClassification (sessions empty_world) =
     Some (OperationalError ''connection refused'') \<and>
   save_classification db_down_env ''abc'' category_only ''openai'' 12 empty_world =
     (Inl (OperationalError ''connection refused''), empty_world\<lparr>sessions := Suc (sessions empty_world)\<rparr>) \<and>
   db_raises db_down_env SaveTags (sessions empty_world) = Some (OperationalError ''connection refused'') \<and>
   save_tags db_down_env 0 roadmap_tags ''openai'' 12 empty_world =
     (Inl (OperationalError ''connection refused''), empty_world\<lparr>sessions := Suc (sessions empty_world)\<rparr>) \<and>
   db_raises db_down_env SaveAnalysis (sessions empty_world) = Some (OperationalError ''connection refused'') \<and>
   save_analysis db_down_env 0 fallback_analysis_data ''openai'' 12 empty_world =
     (Inl (OperationalError ''connection refused''), empty_world\<lparr>sessions := Suc (sessions empty_world)\<rparr>)"
  using persistence_error_policy
          [of db_down_env empty_world "OperationalError ''connection refused''" "''abc''" "''abc''"
              category_only "''openai''" 12 0 roadmap_tags fallback_analysis_data]
        persistence_error_policy
          [of example_env empty_world "OperationalError ''connection refused''" "''abc''" "''abc''"
              category_only "''openai''" 12 0 roadmap_tags fallback_analysis_data]
  by (simp add: db_down_env_def example_env_def empty_world_def)

subsection \<open>Replacing the tags\<close>




subsection \<open>Parsing a reply\<close>

lemma parse_classification_response_returns:
  "\<exists>d. parse_classification_response loads response = Inr d"
  by (auto simp: parse_classification_response_def split: option.splits sum.splits)

text \<open>
  Claim C2, as amended. \<^verbatim>\<open>_parse_classification_response\<close> never raises. A reply in
  which no opening brace is followed by a closing brace gives the fixed fallback
  data. In a reply \<open>pre @ {body} @ post\<close> with no opening brace in \<open>pre\<close> and no
  closing brace in \<open>post\<close>, the text given to \<^verbatim>\<open>json.loads\<close> is \<open>{body}\<close>, from the
  first opening brace to the last closing brace of the reply: the result is what
  \<^verbatim>\<open>json.loads\<close> parses from it, and the fallback data when it raises.
\<close>

theorem parse_classification_response_span:
  "(\<exists>d. parse_classification_response loads response = Inr d) \<and>
   ((\<nexists>pre mid post. response = pre @ ''{'' @ mid @ ''}'' @ post) \<longrightarrow>
      parse_classification_response loads response = Inr fallback_classification_data) \<and>
   (CHR ''{'' \<notin> set pre \<and> CHR ''}'' \<notin> set post \<longrightarrow>
      parse_classification_response loads (pre @ ''{'' @ body @ ''}'' @ post) =
        (case loads (''{'' @ body @ ''}'') of
           Inr d \<Rightarrow> Inr d
         | Inl err \<Rightarrow> Inr fallback_classification_data))"
proof (intro conjI impI)
  show "\<exists>d. parse_classification_response loads response = Inr d"
    by (rule parse_classification_response_returns)
next
  assume "\<nexists>pre mid post. response = pre @ ''{'' @ mid @ ''}'' @ post"
  then have "re_search_braces response = None"
    using re_search_braces_Some[of response] by (cases "re_search_braces response") blast+
  then show "parse_classification_response loads response = Inr fallback_classification_data"
    by (simp add: parse_classification_response_def)
next
  assume "CHR ''{'' \<notin> set pre \<and> CHR ''}'' \<notin> set post"
  then have "re_search_braces (pre @ ''{'' @ body @ ''}'' @ post) = Some (''{'' @ body @ ''}'')"
    using re_search_braces_span by blast
  then show "parse_classification_response loads (pre @ ''{'' @ body @ ''}'' @ post) =
        (case loads (''{'' @ body @ ''}'') of
           Inr d \<Rightarrow> Inr d
         | Inl err \<Rightarrow> Inr fallback_classification_data)"
    by (simp add: parse_classification_response_def split: sum.splits)
qed

text \<open>
  A reply without braces, and an object between two sentences without braces.
\<close>

theorem parse_classification_response_span_witness:
  "(\<nexists>pre mid post. ''I cannot classify this.'' = pre @ ''{'' @ mid @ ''}'' @ post) \<and>
   parse_classification_response (loads_table [(''{\"category\": \"01-Projects\"}'', category_only)])
     ''I cannot classify this.'' = Inr fallback_classification_data \<and>
   CHR ''{'' \<notin> set ''Here is the result: '' \<and> CHR ''}'' \<notin> set '' Hope this helps.'' \<and>
   parse_classification_response (loads_table [(''{\"category\": \"01-Projects\"}'', category_only)])
     ''Here is the result: {\"category\": \"01-Projects\"} Hope this helps.'' = Inr category_only"
proof -
  have none: "\<nexists>pre mid post. ''I cannot classify this.'' = pre @ ''{'' @ mid @ ''}'' @ post"
  proof
    assume "\<exists>pre mid post. ''I cannot classify this.'' = pre @ ''{'' @ mid @ ''}'' @ post"
    then obtain pre mid post where "''I cannot classify this.'' = pre @ ''{'' @ mid @ ''}'' @ post"
      by blast
    then have "CHR ''{'' \<in> set ''I cannot classify this.''"
      by (metis append_Cons in_set_conv_decomp)
    then show False by simp
  qed
  have br: "CHR ''{'' \<notin> set ''Here is the result: '' \<and> CHR ''}'' \<notin> set '' Hope this helps.''"
    by simp
  show ?thesis
    using none br
      parse_classification_response_span
        [of "loads_table [(''{\"category\": \"01-Projects\"}'', category_only)]"
            "''I cannot classify this.''" "''Here is the result: ''" "'' Hope this helps.''"
            "''\"category\": \"01-Projects\"''"]
    by (simp add: loads_table_def)
qed

text \<open>
  Claim C2 as stated fails: the reply starts with a valid JSON object, the prose
  after it has braces of its own, the match runs to the last of them,
  \<^verbatim>\<open>json.loads\<close> rejects it and the fallback data is returned instead of the object.
\<close>

theorem parse_takes_last_brace:
  "re_search_braces ''{\"category\": \"01-Projects\"} Use the form {key: value}.'' =
     Some ''{\"category\": \"01-Projects\"} Use the form {key: value}'' \<and>
   loads_table [(''{\"category\": \"01-Projects\"}'', category_only)] ''{\"category\": \"01-Projects\"}''
     = Inr category_only \<and>
   parse_classification_response (loads_table [(''{\"category\": \"01-Projects\"}'', category_only)])
     ''{\"category\": \"01-Projects\"} Use the form {key: value}.'' = Inr fallback_classification_data \<and>
   fallback_classification_data \<noteq> category_only"
  by (simp add: re_search_braces_def parse_classification_response_def loads_table_def
        fallback_classification_data_def category_only_def)

subsection \<open>The order of the tiers\<close>








subsection \<open>The rule-based classification\<close>









subsection \<open>Serving a stored classification\<close>











subsection \<open>Health updates of the three services\<close>

text \<open>
  Claim C5, the failing input. With both services down, \<^verbatim>\<open>generate_smart_tags\<close> and
  \<^verbatim>\<open>analyze_content\<close> return the result of their local substitute and record no
  health update at all, where \<^verbatim>\<open>classify_content\<close> records one under the name
  ``fallback''.
\<close>

theorem tagging_fallback_records_no_health:
  "fst (generate_smart_tags example_env ''Plan the week'' None None None empty_world) =
     Inr \<lparr>smart_tags = [''plan'', ''week''], tagging_confidence = 0.4,
          semantic_groups = [(''general'', [''plan'', ''week''])],
          related_topics = [''content analysis'', ''knowledge management'']\<rparr> \<and>
   ai_service_status (snd (generate_smart_tags example_env ''Plan the week'' None None None
                             empty_world)) = [] \<and>
   ai_service_status (snd (analyze_content example_env ''Plan the week'' None None empty_world)) = [] \<and>
   map ss_service_name
     (ai_service_status (snd (classify_content example_env ''Plan the week'' None empty_world))) =
     [''fallback'']"
  by (simp add: eval_simps tagging_simps analysis_simps fallback_classification_plan default_to_areas_def)

subsection \<open>Serving stored tags\<close>



end
